theory Spec2Isabelle
  imports Main
begin

section \<open>Data model of \<^verbatim>\<open>server.js\<close>\<close>

text \<open>
  The server keeps four directories below its own location (\<^verbatim>\<open>DIRS\<close>). A file the
  pipeline touches is named by the result of \<^verbatim>\<open>path.join\<close>: a normalised absolute
  path, kept as the list of its components (\<open>Joined\<close>). The paths are those of Node's
  \<^verbatim>\<open>path\<close> module on a POSIX system. The upscaling executable and its models directory
  are configured as path strings and are kept as such (\<open>Abs\<close>).
\<close>

datatype dir = Input | Output | Temp | Uploads

datatype path = Joined "string list" | Abs string

type_synonym content = string

text \<open>The file system: an association list from the paths of files to their contents.\<close>

type_synonym filesystem = "(path \<times> content) list"

text \<open>A value of a JSON request body, as far as the routes tell one from another: a
  string or something else.\<close>

datatype jsval = JString string | JUndefined | JNull | JBoolean bool | JNumber int | JStructured

datatype js_error = JsError (message: string)

text \<open>
  How a computation ends when it does not return: with an exception, which a
  \<^verbatim>\<open>try\<close> block around it catches, or with an error thrown outside every call stack
  (an \<^verbatim>\<open>'error'\<close> event nobody listens for), which ends the server process.
\<close>

datatype abrupt = Exception (reason: js_error) | Uncaught (reason: js_error)

text \<open>The payload of a \<^verbatim>\<open>'progress'\<close> event: the type tag, the file, and the
  message (step, error) or the output URL (complete).\<close>

datatype progress =
    Start string
  | Step string string
  | Complete string string
  | Error string string

datatype arg = S string | P path

datatype response =
    Started nat
  | Failed string
  | ConfigSaved bool string string

text \<open>Everything the server does to the outside, in the order it does it. What it
  writes to the console is left out.\<close>

datatype effect =
    Emit progress
  | Reply response
  | Spawn string "arg list"
  | SharpRead path
  | WriteFile path
  | Unlink path

text \<open>\<^verbatim>\<open>// settings: { upscale: boolean, model: string }\<close>; the model may be unset.
  Where the pipeline takes a \<open>settings option\<close>, \<open>None\<close> is a request body without
  settings.\<close>

record settings =
  upscale :: bool
  model :: "string option"

record world =
  files :: filesystem
  UPSCAYL_BIN :: string
  MODELS_PATH :: string
  trace :: "effect list"

text \<open>
  How a spawned child ends for the code that awaits it. The \<^verbatim>\<open>'close'\<close> event carries
  the exit code (\<^verbatim>\<open>null\<close>, here \<open>None\<close>, when a signal ended the child). \<^verbatim>\<open>spawn\<close>
  may throw inside the promise executor. Or the child cannot be started (the file exists
  but cannot be executed, say): Node then emits \<^verbatim>\<open>'error'\<close> on the child, and
  \<^verbatim>\<open>server.js\<close> registers no listener for it. A child that never closes is not modelled:
  the source sets no timeout.
\<close>

datatype exit = Closed "int option" | SpawnThrew js_error | ErrorEvent js_error

record metadata =
  format :: string
  size :: nat
  density :: nat
  exif_present :: bool
  icc_present :: bool

record exif =
  Copyright :: string
  Artist :: string
  ImageDescription :: string

record jpeg_options =
  quality :: nat
  chromaSubsampling :: string
  mozjpeg :: bool

text \<open>
  What is not part of the repository is a parameter: the directory of the server
  (\<^verbatim>\<open>__dirname\<close>, by its components), the upscaling executable (what it leaves on disk
  and how it ends), the three calls into the image library, the failures of
  \<^verbatim>\<open>fs.unlinkSync\<close>, the two functions of Node's \<^verbatim>\<open>path\<close> module that the
  configuration route applies to a configured path, and the \<^verbatim>\<open>TypeError\<close> that
  \<^verbatim>\<open>path.join\<close> throws for an argument that is not a string.
\<close>

record env =
  server_dir :: "string list"
  executor :: "string \<Rightarrow> arg list \<Rightarrow> filesystem \<Rightarrow> filesystem \<times> exit"
  sharp_metadata :: "filesystem \<Rightarrow> path \<Rightarrow> js_error + metadata"
  sharp_toBuffer :: "filesystem \<Rightarrow> path \<Rightarrow> js_error + content"
  sharp_toFile :: "content \<Rightarrow> exif \<Rightarrow> jpeg_options \<Rightarrow> filesystem \<Rightarrow> path \<Rightarrow> js_error + content"
  unlink_error :: "filesystem \<Rightarrow> path \<Rightarrow> js_error option"
  path_dirname :: "string \<Rightarrow> string"
  path_join_str :: "string \<Rightarrow> string \<Rightarrow> string"
  path_type_error :: "jsval \<Rightarrow> js_error"

section \<open>Exceptions and state\<close>

text \<open>A computation runs on the world and either returns a value or ends abruptly.\<close>

type_synonym 'a io = "world \<Rightarrow> (abrupt + 'a) \<times> world"

definition io_return :: "'a \<Rightarrow> 'a io" where
  "io_return x w = (Inr x, w)"

definition io_bind :: "'a io \<Rightarrow> ('a \<Rightarrow> 'b io) \<Rightarrow> 'b io" where
  "io_bind m f w = (case m w of (Inl a, w') \<Rightarrow> (Inl a, w') | (Inr x, w') \<Rightarrow> f x w')"

text \<open>\<^verbatim>\<open>try { m } catch (err) { h }\<close>: only an exception reaches the handler.\<close>

definition try_catch :: "'a io \<Rightarrow> (js_error \<Rightarrow> 'a io) \<Rightarrow> 'a io" where
  "try_catch m h w = (case m w of
       (Inl (Exception e), w') \<Rightarrow> h e w'
     | (Inl (Uncaught e), w') \<Rightarrow> (Inl (Uncaught e), w')
     | (Inr x, w') \<Rightarrow> (Inr x, w'))"

definition perform :: "effect \<Rightarrow> world \<Rightarrow> world" where
  "perform e w = w\<lparr>trace := trace w @ [e]\<rparr>"

definition emit :: "progress \<Rightarrow> unit io" where
  "emit p w = (Inr (), perform (Emit p) w)"

definition reply :: "response \<Rightarrow> unit io" where
  "reply r w = (Inr (), perform (Reply r) w)"

section \<open>The file system\<close>

definition existsSync :: "filesystem \<Rightarrow> path \<Rightarrow> bool" where
  "existsSync fs p = (map_of fs p \<noteq> None)"

definition fs_remove :: "path \<Rightarrow> filesystem \<Rightarrow> filesystem" where
  "fs_remove p fs = filter (\<lambda>(q, c). q \<noteq> p) fs"

definition fs_write :: "path \<Rightarrow> content \<Rightarrow> filesystem \<Rightarrow> filesystem" where
  "fs_write p c fs = (p, c) # fs_remove p fs"

text \<open>The names of the files directly inside a directory.\<close>

definition readdirSync :: "filesystem \<Rightarrow> string list \<Rightarrow> string list" where
  "readdirSync fs d = remdups (concat (map (\<lambda>(q, c). case q of
       Joined comps \<Rightarrow> (if comps \<noteq> [] \<and> butlast comps = d then [last comps] else [])
     | Abs a \<Rightarrow> []) fs))"

text \<open>\<^verbatim>\<open>fs.unlinkSync\<close> throws when the file is missing or cannot be removed.\<close>

definition unlinkSync :: "env \<Rightarrow> path \<Rightarrow> unit io" where
  "unlinkSync env p w =
     (if \<not> existsSync (files w) p
      then (Inl (Exception (JsError ''ENOENT: no such file or directory, unlink'')), w)
      else case unlink_error env (files w) p of
             Some e \<Rightarrow> (Inl (Exception e), w)
           | None \<Rightarrow> (Inr (), perform (Unlink p) (w\<lparr>files := fs_remove p (files w)\<rparr>)))"

section \<open>Strings\<close>

definition digit :: "nat \<Rightarrow> char" where
  "digit n = char_of (48 + n)"

fun string_of_nat :: "nat \<Rightarrow> string" where
  "string_of_nat n = (if n < 10 then [digit n] else string_of_nat (n div 10) @ [digit (n mod 10)])"

declare string_of_nat.simps [simp del]

definition string_of_int :: "int \<Rightarrow> string" where
  "string_of_int i = (if i < 0 then CHR ''-'' # string_of_nat (nat (- i)) else string_of_nat (nat i))"

text \<open>The template literal \<^verbatim>\<open>${code}\<close>.\<close>

definition string_of_code :: "int option \<Rightarrow> string" where
  "string_of_code c = (case c of None \<Rightarrow> ''null'' | Some i \<Rightarrow> string_of_int i)"

definition lower :: "char \<Rightarrow> char" where
  "lower c = (let n = (of_char c :: nat) in if 65 \<le> n \<and> n \<le> 90 then char_of (n + 32) else c)"

definition ends_with :: "string \<Rightarrow> string \<Rightarrow> bool" where
  "ends_with s f = (length s \<le> length f \<and> drop (length f - length s) f = s)"

text \<open>\<^verbatim>\<open>/\.(png|jpg|jpeg|webp)$/i.test(f)\<close>\<close>

definition is_image :: "string \<Rightarrow> bool" where
  "is_image f = (let l = map lower f in
     ends_with ''.png'' l \<or> ends_with ''.jpg'' l \<or> ends_with ''.jpeg'' l \<or> ends_with ''.webp'' l)"

section \<open>Node's \<^verbatim>\<open>path\<close> module\<close>

text \<open>The segments of a string between its slashes.\<close>

fun split_on :: "char \<Rightarrow> string \<Rightarrow> string list" where
  "split_on c [] = [[]]"
| "split_on c (x # xs) =
     (if x = c then [] # split_on c xs
      else case split_on c xs of
             y # ys \<Rightarrow> (x # y) # ys
           | [] \<Rightarrow> [[x]])"

text \<open>
  Normalisation walks the segments from an absolute directory: an empty segment and
  \<^verbatim>\<open>.\<close> are skipped, \<^verbatim>\<open>..\<close> drops the last component (at the root there is none
  to drop), any other segment is appended.
\<close>

fun resolve :: "string list \<Rightarrow> string list \<Rightarrow> string list" where
  "resolve comps [] = comps"
| "resolve comps (s # ss) =
     (if s = [] \<or> s = ''.'' then resolve comps ss
      else if s = ''..'' then resolve (butlast comps) ss
      else resolve (comps @ [s]) ss)"

text \<open>
  \<^verbatim>\<open>path.join(directory, name)\<close> for an absolute, normalised directory. A name that ends
  with a slash leaves a trailing slash on the result, kept here as a last, empty
  component; no file has such a path.
\<close>

definition path_join :: "string list \<Rightarrow> string \<Rightarrow> path" where
  "path_join d name =
     (let comps = resolve d (split_on CHR ''/'' name)
      in Joined (if name \<noteq> [] \<and> last name = CHR ''/'' \<and> comps \<noteq> [] then comps @ [[]] else comps))"

text \<open>
  \<^verbatim>\<open>path.parse(p).name\<close>. Trailing slashes are dropped and the last component is
  taken. Its name is the component up to its last dot, or the whole component when it has
  no dot, when its only dot comes first, or when it is \<^verbatim>\<open>..\<close>. Node tells the last case
  by the position of the dot from the start of the part it scanned, which for a component
  that directly follows the root slash is the root itself: of \<^verbatim>\<open>/..\<close> the name is
  \<^verbatim>\<open>.\<close>.
\<close>

definition strip_slashes :: "string \<Rightarrow> string" where
  "strip_slashes p = rev (dropWhile (\<lambda>c. c = CHR ''/'') (rev p))"

definition path_base :: "string \<Rightarrow> string" where
  "path_base p = rev (takeWhile (\<lambda>c. c \<noteq> CHR ''/'') (rev (strip_slashes p)))"

definition after_root :: "string \<Rightarrow> bool" where
  "after_root p = (strip_slashes p = CHR ''/'' # path_base p)"

definition last_dot :: "string \<Rightarrow> nat option" where
  "last_dot f = (if CHR ''.'' \<in> set f
     then Some (length f - 1 - length (takeWhile (\<lambda>c. c \<noteq> CHR ''.'') (rev f))) else None)"

definition parse_name :: "string \<Rightarrow> string" where
  "parse_name p =
     (let b = path_base p
      in case last_dot b of
           None \<Rightarrow> b
         | Some i \<Rightarrow> if i = 0 \<or> (b = ''..'' \<and> \<not> after_root p) then b else take i b)"

text \<open>\<^verbatim>\<open>path.basename\<close>\<close>

fun basename :: "path \<Rightarrow> string" where
  "basename (Joined comps) = (case filter (\<lambda>c. c \<noteq> []) comps of [] \<Rightarrow> [] | c # cs \<Rightarrow> last (c # cs))"
| "basename (Abs a) = path_base a"

section \<open>The pipeline\<close>

text \<open>\<^verbatim>\<open>DIRS\<close>: each directory is \<^verbatim>\<open>path.join(__dirname, ...)\<close>.\<close>

definition DIRS :: "env \<Rightarrow> dir \<Rightarrow> string list" where
  "DIRS env d = server_dir env @
     [case d of Input \<Rightarrow> ''input'' | Output \<Rightarrow> ''output'' | Temp \<Rightarrow> ''temp'' | Uploads \<Rightarrow> ''uploads'']"

definition ARTIST :: string where
  "ARTIST = ''Akhlaque''"

definition isUpscaylAvailable :: "world \<Rightarrow> bool" where
  "isUpscaylAvailable w = existsSync (files w) (Abs (UPSCAYL_BIN w))"

definition inputPath :: "env \<Rightarrow> string \<Rightarrow> path" where
  "inputPath env fileName = path_join (DIRS env Input) fileName"

definition tempUpscaledPath :: "env \<Rightarrow> string \<Rightarrow> path" where
  "tempUpscaledPath env fileName = path_join (DIRS env Temp) fileName"

definition finalOutputPath :: "env \<Rightarrow> string \<Rightarrow> path" where
  "finalOutputPath env fileName = path_join (DIRS env Output) (parse_name fileName @ ''.jpg'')"

text \<open>The bytes of U+26A0 U+FE0F, the warning sign that opens the skip message.\<close>

definition warning_sign :: string where
  "warning_sign = [CHR 0xE2, CHR 0x9A, CHR 0xA0, CHR 0xEF, CHR 0xB8, CHR 0x8F]"

definition skip_message :: string where
  "skip_message = warning_sign @ '' Upscayl not found - skipping upscaling''"

text \<open>\<^verbatim>\<open>settings.model || 'upscayl-standard-4x'\<close>: the empty string is falsy as well.\<close>

definition model_name :: "settings \<Rightarrow> string" where
  "model_name st = (case model st of
       None \<Rightarrow> ''upscayl-standard-4x''
     | Some m \<Rightarrow> if m = [] then ''upscayl-standard-4x'' else m)"

definition upscayl_args :: "env \<Rightarrow> string \<Rightarrow> settings \<Rightarrow> world \<Rightarrow> arg list" where
  "upscayl_args env fileName st w =
     [S ''-i'', P (inputPath env fileName),
      S ''-o'', P (tempUpscaledPath env fileName),
      S ''-s'', S ''4'',
      S ''-m'', P (Abs (MODELS_PATH w)),
      S ''-n'', S (model_name st),
      S ''-f'', S ''png'']"

text \<open>The \<^verbatim>\<open>'close'\<close> listener: the promise is resolved on exit code 0, rejected
  otherwise.\<close>

definition on_close :: "int option \<Rightarrow> js_error + unit" where
  "on_close code = (if code = Some 0 then Inr ()
                    else Inl (JsError (''Upscayl exited with code '' @ string_of_code code)))"

text \<open>
  What awaiting the promise gives. A rejection and a throw in the executor are exceptions
  at the \<^verbatim>\<open>await\<close>. The \<^verbatim>\<open>'error'\<close> event has no listener: Node throws its error
  outside the promise, which is never settled, and the process ends.
\<close>

definition await_child :: "exit \<Rightarrow> abrupt + unit" where
  "await_child x = (case x of
       Closed code \<Rightarrow> (case on_close code of Inl e \<Rightarrow> Inl (Exception e) | Inr u \<Rightarrow> Inr u)
     | SpawnThrew e \<Rightarrow> Inl (Exception e)
     | ErrorEvent e \<Rightarrow> Inl (Uncaught e))"

definition spawn :: "env \<Rightarrow> string \<Rightarrow> arg list \<Rightarrow> unit io" where
  "spawn env bin args w =
     (let w1 = perform (Spawn bin args) w;
          (fs', x) = executor env bin args (files w1)
      in (await_child x, w1\<lparr>files := fs'\<rparr>))"

text \<open>Stage 1, the upscaling: what it returns is \<^verbatim>\<open>currentPath\<close>.\<close>

definition upscale_stage :: "env \<Rightarrow> string \<Rightarrow> settings option \<Rightarrow> path io" where
  "upscale_stage env fileName settings w =
     (case settings of
        None \<Rightarrow> (Inl (Exception (JsError ''Cannot read properties of undefined (reading 'upscale')'')), w)
      | Some st \<Rightarrow>
          if upscale st then
            if \<not> isUpscaylAvailable w then
              io_bind (emit (Step fileName skip_message))
                (\<lambda>_. io_return (inputPath env fileName)) w
            else
              io_bind (emit (Step fileName ''Upscaling...''))
                (\<lambda>_. io_bind (spawn env (UPSCAYL_BIN w) (upscayl_args env fileName st w))
                (\<lambda>_. io_return (tempUpscaledPath env fileName))) w
          else (Inr (inputPath env fileName), w))"

text \<open>A call into the image library that reads a file; its rejection is an exception.\<close>

definition sharp_read :: "(filesystem \<Rightarrow> path \<Rightarrow> js_error + 'a) \<Rightarrow> path \<Rightarrow> 'a io" where
  "sharp_read f p w =
     (case f (files w) p of Inl e \<Rightarrow> Inl (Exception e) | Inr x \<Rightarrow> Inr x, perform (SharpRead p) w)"

definition toFile :: "env \<Rightarrow> content \<Rightarrow> exif \<Rightarrow> jpeg_options \<Rightarrow> path \<Rightarrow> unit io" where
  "toFile env buf ex opts p w =
     (case sharp_toFile env buf ex opts (files w) p of
        Inl e \<Rightarrow> (Inl (Exception e), w)
      | Inr c \<Rightarrow> (Inr (), perform (WriteFile p) (w\<lparr>files := fs_write p c (files w)\<rparr>)))"

text \<open>Stage 2: metadata, the clean sRGB buffer, the tagged JPEG.\<close>

definition sharp_stage :: "env \<Rightarrow> string \<Rightarrow> path \<Rightarrow> unit io" where
  "sharp_stage env fileName currentPath =
     io_bind (emit (Step fileName ''Optimizing & Tagging...''))
       (\<lambda>_. io_bind (sharp_read (sharp_metadata env) currentPath)
       (\<lambda>originalMetadata. io_bind (sharp_read (sharp_toBuffer env) currentPath)
       (\<lambda>cleanBuffer. toFile env cleanBuffer
           \<lparr>Copyright = ARTIST, Artist = ARTIST, ImageDescription = fileName\<rparr>
           \<lparr>quality = 95, chromaSubsampling = ''4:4:4'', mozjpeg = True\<rparr>
           (finalOutputPath env fileName))))"

text \<open>The cleanup: the temporary file, then the input file, each if it exists.\<close>

definition unlink_if_exists :: "env \<Rightarrow> path \<Rightarrow> unit io" where
  "unlink_if_exists env p w =
     (if existsSync (files w) p then unlinkSync env p w else (Inr (), w))"

definition cleanup_stage :: "env \<Rightarrow> string \<Rightarrow> unit io" where
  "cleanup_stage env fileName =
     io_bind (unlink_if_exists env (tempUpscaledPath env fileName))
       (\<lambda>_. unlink_if_exists env (inputPath env fileName))"

definition output_url :: "env \<Rightarrow> string \<Rightarrow> string" where
  "output_url env fileName = ''/output/'' @ basename (finalOutputPath env fileName)"

text \<open>The body of the \<^verbatim>\<open>try\<close> block.\<close>

definition pipeline :: "env \<Rightarrow> string \<Rightarrow> settings option \<Rightarrow> unit io" where
  "pipeline env fileName settings =
     io_bind (upscale_stage env fileName settings)
       (\<lambda>currentPath. io_bind (sharp_stage env fileName currentPath)
       (\<lambda>_. io_bind (cleanup_stage env fileName)
       (\<lambda>_. emit (Complete fileName (output_url env fileName)))))"

text \<open>
  \<open>processImage\<close>. The three paths are computed before the \<^verbatim>\<open>try\<close> block:
  \<^verbatim>\<open>path.join\<close> throws a \<^verbatim>\<open>TypeError\<close> for a name that is not a string, and nothing
  catches it there.
\<close>

definition processImage :: "env \<Rightarrow> jsval \<Rightarrow> settings option \<Rightarrow> unit io" where
  "processImage env fileName settings =
     (case fileName of
        JString f \<Rightarrow>
          io_bind (emit (Start f))
            (\<lambda>_. try_catch (pipeline env f settings)
                    (\<lambda>err. emit (Error f (message err))))
      | _ \<Rightarrow> (\<lambda>w. (Inl (Exception (path_type_error env fileName)), w)))"

section \<open>The routes\<close>

text \<open>\<^verbatim>\<open>for (const file of files) await processImage(file, settings)\<close>\<close>

fun for_each :: "'a list \<Rightarrow> ('a \<Rightarrow> unit io) \<Rightarrow> unit io" where
  "for_each [] body = io_return ()"
| "for_each (file # rest) body = io_bind (body file) (\<lambda>_. for_each rest body)"

text \<open>\<^verbatim>\<open>POST /api/process\<close>\<close>

definition resolve_files :: "env \<Rightarrow> jsval \<Rightarrow> filesystem \<Rightarrow> jsval list" where
  "resolve_files env filename fs =
     (if filename = JString ''all''
      then map JString (filter is_image (readdirSync fs (DIRS env Input)))
      else [filename])"

definition post_process :: "env \<Rightarrow> jsval \<Rightarrow> settings option \<Rightarrow> unit io" where
  "post_process env filename settings =
     try_catch
       (\<lambda>w. let fs = resolve_files env filename (files w)
            in io_bind (reply (Started (length fs)))
                 (\<lambda>_. for_each fs (\<lambda>file. processImage env file settings)) w)
       (\<lambda>err. reply (Failed (message err)))"

text \<open>\<^verbatim>\<open>POST /api/config\<close>: the body's \<^verbatim>\<open>path\<close> field, if any. The empty string
  is falsy.\<close>

definition post_config :: "env \<Rightarrow> string option \<Rightarrow> unit io" where
  "post_config env body_path w =
     (let w1 = (case body_path of
                  None \<Rightarrow> w
                | Some p \<Rightarrow>
                    if p = [] then w
                    else w\<lparr>UPSCAYL_BIN := p,
                            MODELS_PATH := path_join_str env (path_dirname env (path_dirname env p)) ''models''\<rparr>)
      in reply (ConfigSaved True (UPSCAYL_BIN w1) (MODELS_PATH w1)) w1)"

section \<open>Reading a run\<close>

text \<open>What a computation added to the trace, and the progress events among it.\<close>

definition effects_of :: "'a io \<Rightarrow> world \<Rightarrow> effect list" where
  "effects_of m w = drop (length (trace w)) (trace (snd (m w)))"

fun emitted :: "effect list \<Rightarrow> progress list" where
  "emitted [] = []"
| "emitted (Emit p # t) = p # emitted t"
| "emitted (e # t) = emitted t"

text \<open>The message or output URL an event carries.\<close>

fun text_of :: "progress \<Rightarrow> string" where
  "text_of (Start f) = []"
| "text_of (Step f m) = m"
| "text_of (Complete f out) = out"
| "text_of (Error f m) = m"

definition events_of :: "'a io \<Rightarrow> world \<Rightarrow> progress list" where
  "events_of m w = emitted (effects_of m w)"

fun is_step :: "progress \<Rightarrow> bool" where
  "is_step (Step f m) = True"
| "is_step p = False"

fun is_error :: "progress \<Rightarrow> bool" where
  "is_error (Error f m) = True"
| "is_error p = False"


fun file_of :: "progress \<Rightarrow> string" where
  "file_of (Start f) = f"
| "file_of (Step f m) = f"
| "file_of (Complete f out) = f"
| "file_of (Error f m) = f"

text \<open>The terminal event of a run whose \<^verbatim>\<open>try\<close> block ended with \<open>r\<close>.\<close>

definition terminal :: "env \<Rightarrow> string \<Rightarrow> abrupt + unit \<Rightarrow> progress" where
  "terminal env f r = (case r of
       Inl a \<Rightarrow> Error f (message (reason a))
     | Inr u \<Rightarrow> Complete f (output_url env f))"

text \<open>What closes the events of a run, and how the run ends, given how its \<^verbatim>\<open>try\<close>
  block ended: an exception is caught and reported, an uncaught error ends the process
  before any terminal event.\<close>

definition closing :: "env \<Rightarrow> string \<Rightarrow> abrupt + unit \<Rightarrow> progress list" where
  "closing env f r = (case r of
       Inl (Exception e) \<Rightarrow> [Error f (message e)]
     | Inl (Uncaught e) \<Rightarrow> []
     | Inr u \<Rightarrow> [Complete f (output_url env f)])"

definition outcome :: "abrupt + unit \<Rightarrow> abrupt + unit" where
  "outcome r = (case r of
       Inl (Exception e) \<Rightarrow> Inr ()
     | Inl (Uncaught e) \<Rightarrow> Inl (Uncaught e)
     | Inr u \<Rightarrow> Inr ())"

text \<open>The promise that awaits a child settles when the child closes or \<^verbatim>\<open>spawn\<close>
  throws. It never does when the child emits \<^verbatim>\<open>'error'\<close>.\<close>

fun settles :: "exit \<Rightarrow> bool" where
  "settles (ErrorEvent e) = False"
| "settles x = True"

text \<open>A run spawns cleanly when it spawns no child, or the promise that awaits its child
  settles.\<close>

definition spawns_cleanly :: "env \<Rightarrow> string \<Rightarrow> settings option \<Rightarrow> world \<Rightarrow> bool" where
  "spawns_cleanly env f s w = (case s of
       None \<Rightarrow> True
     | Some st \<Rightarrow> \<not> (upscale st \<and> isUpscaylAvailable w)
         \<or> settles (snd (executor env (UPSCAYL_BIN w) (upscayl_args env f st w) (files w))))"


text \<open>The stages of the \<^verbatim>\<open>try\<close> block before the \<^verbatim>\<open>complete\<close> event.\<close>

definition stages :: "env \<Rightarrow> string \<Rightarrow> settings option \<Rightarrow> unit io" where
  "stages env fileName settings =
     io_bind (upscale_stage env fileName settings)
       (\<lambda>currentPath. io_bind (sharp_stage env fileName currentPath)
       (\<lambda>_. cleanup_stage env fileName))"

definition step_of :: "string \<Rightarrow> progress \<Rightarrow> bool" where
  "step_of f p = (is_step p \<and> file_of p = f)"

text \<open>A computation is quiet for a file when it only appends to the trace and every
  progress event it emits is a step event of that file.\<close>

definition quiet :: "string \<Rightarrow> 'a io \<Rightarrow> bool" where
  "quiet f m = (\<forall>w. \<exists>t. trace (snd (m w)) = trace w @ t \<and> list_all (step_of f) (emitted t))"

text \<open>What follows the upscaling: the image library's stage, then the cleanup.\<close>

definition finish :: "env \<Rightarrow> string \<Rightarrow> path \<Rightarrow> unit io" where
  "finish env fileName currentPath =
     io_bind (sharp_stage env fileName currentPath) (\<lambda>_. cleanup_stage env fileName)"




text \<open>The effects of the stages after the upscaling, the step event apart.\<close>

definition late :: "env \<Rightarrow> string \<Rightarrow> path \<Rightarrow> effect \<Rightarrow> bool" where
  "late env f p e = (e = SharpRead p \<or> e = WriteFile (finalOutputPath env f)
      \<or> e = Unlink (tempUpscaledPath env f) \<or> e = Unlink (inputPath env f))"

text \<open>The rest of the \<^verbatim>\<open>try\<close> block once \<^verbatim>\<open>currentPath\<close> is known, with its handler.\<close>

definition after_upscale :: "env \<Rightarrow> string \<Rightarrow> path \<Rightarrow> unit io" where
  "after_upscale env f p =
     try_catch (io_bind (finish env f p) (\<lambda>_. emit (Complete f (output_url env f))))
       (\<lambda>err. emit (Error f (message err)))"

text \<open>\<^verbatim>\<open>String.prototype.includes\<close>, to look for the warning sign in a message.\<close>

fun str_includes :: "string \<Rightarrow> string \<Rightarrow> bool" where
  "str_includes [] s = (s = [])"
| "str_includes (c # m) s = (take (length s) (c # m) = s \<or> str_includes m s)"



section \<open>Concrete collaborators and worlds\<close>

text \<open>
  An image library that fails on a missing file and on a file that is not an image, and
  otherwise copies; an executable that writes its output file and exits with the given
  code; an \<^verbatim>\<open>unlink\<close> that never fails. The server lives in \<^verbatim>\<open>/app\<close>.
\<close>

definition read_file :: "filesystem \<Rightarrow> path \<Rightarrow> js_error + content" where
  "read_file fs p = (case map_of fs p of
       None \<Rightarrow> Inl (JsError ''Input file is missing'')
     | Some c \<Rightarrow> if c = ''not an image''
                 then Inl (JsError ''Input file contains unsupported image format'')
                 else Inr c)"

definition lab_env :: "int \<Rightarrow> env" where
  "lab_env code =
     \<lparr>server_dir = [''app''],
      executor = (\<lambda>bin args fs. case args of
                    S a # P src # S b # P dst # rest \<Rightarrow>
                      (fs_write dst ''upscaled'' fs, Closed (Some code))
                  | _ \<Rightarrow> (fs, Closed (Some 2))),
      sharp_metadata = (\<lambda>fs p. case read_file fs p of
                    Inl e \<Rightarrow> Inl e
                  | Inr c \<Rightarrow> Inr \<lparr>format = ''png'', size = length c, density = 72,
                                exif_present = False, icc_present = False\<rparr>),
      sharp_toBuffer = read_file,
      sharp_toFile = (\<lambda>buf ex opts fs p. Inr (''JPEG of '' @ ImageDescription ex)),
      unlink_error = (\<lambda>fs p. None),
      path_dirname = (\<lambda>p. p),
      path_join_str = (\<lambda>a b. a @ ''/'' @ b),
      path_type_error = (\<lambda>v. JsError ''ERR_INVALID_ARG_TYPE'')\<rparr>"

text \<open>The same, with an executable that exists and cannot be run.\<close>

definition unrunnable_env :: env where
  "unrunnable_env = (lab_env 0)\<lparr>executor := (\<lambda>bin args fs. (fs, ErrorEvent (JsError ''spawn EACCES'')))\<rparr>"

definition plain :: settings where
  "plain = \<lparr>upscale = False, model = None\<rparr>"

definition upscaling :: settings where
  "upscaling = \<lparr>upscale = True, model = None\<rparr>"

definition world_of :: "filesystem \<Rightarrow> world" where
  "world_of fs = \<lparr>files = fs, UPSCAYL_BIN = ''/opt/upscayl/bin/upscayl-bin'',
                  MODELS_PATH = ''/opt/upscayl/models'', trace = []\<rparr>"

text \<open>File systems: one with the executable installed and an image waiting, one with
  two images of the same stem, one whose only image lies in the output directory.\<close>

definition installed :: filesystem where
  "installed = [(Abs ''/opt/upscayl/bin/upscayl-bin'', ''binary''),
                (Joined [''app'', ''input'', ''a.png''], ''pixels'')]"



section \<open>Basic facts\<close>

lemma perform_simps [simp]:
  "trace (perform e w) = trace w @ [e]"
  "files (perform e w) = files w"
  "UPSCAYL_BIN (perform e w) = UPSCAYL_BIN w"
  "MODELS_PATH (perform e w) = MODELS_PATH w"
  by (simp_all add: perform_def)

lemma emitted_append [simp]: "emitted (a @ b) = emitted a @ emitted b"
  by (induction a rule: emitted.induct) simp_all

lemma io_bind_assoc: "io_bind (io_bind m g) h = io_bind m (\<lambda>x. io_bind (g x) h)"
  by (rule ext) (simp add: io_bind_def split: prod.splits sum.splits)

lemma pipeline_stages:
  "pipeline env f s = io_bind (stages env f s) (\<lambda>_. emit (Complete f (output_url env f)))"
  by (simp add: pipeline_def stages_def io_bind_assoc)

section \<open>Every stage is quiet\<close>

lemma quiet_bind:
  assumes "quiet f m" and "\<And>x. quiet f (g x)"
  shows "quiet f (io_bind m g)"
proof (unfold quiet_def, intro allI)
  fix w
  from assms(1) obtain t where t: "trace (snd (m w)) = trace w @ t" "list_all (step_of f) (emitted t)"
    unfolding quiet_def by blast
  show "\<exists>t. trace (snd (io_bind m g w)) = trace w @ t \<and> list_all (step_of f) (emitted t)"
  proof (cases "m w")
    case (Pair r w1)
    show ?thesis
    proof (cases r)
      case (Inl e)
      with Pair t show ?thesis by (auto simp: io_bind_def)
    next
      case (Inr x)
      from assms(2) [of x] obtain u where
        u: "trace (snd (g x w1)) = trace w1 @ u" "list_all (step_of f) (emitted u)"
        unfolding quiet_def by blast
      from Pair Inr t u have "trace (snd (io_bind m g w)) = trace w @ (t @ u)"
        by (simp add: io_bind_def)
      moreover from t u have "list_all (step_of f) (emitted (t @ u))" by simp
      ultimately show ?thesis by blast
    qed
  qed
qed

lemma quiet_emit_step: "quiet f (emit (Step f m))"
  by (simp add: quiet_def emit_def step_of_def)

lemma quiet_upscale: "quiet f (upscale_stage env f s)"
  unfolding quiet_def
  by (auto simp: upscale_stage_def io_bind_def emit_def spawn_def io_return_def Let_def step_of_def
      split: option.splits prod.splits sum.splits)

lemma quiet_sharp_read: "quiet f (sharp_read g p)"
  by (simp add: quiet_def sharp_read_def)

lemma quiet_toFile: "quiet f (toFile env buf ex opts p)"
  by (simp add: quiet_def toFile_def split: sum.splits)

lemma quiet_sharp: "quiet f (sharp_stage env f p)"
  unfolding sharp_stage_def
  by (intro quiet_bind quiet_emit_step quiet_sharp_read quiet_toFile)

lemma quiet_unlink: "quiet f (unlink_if_exists env p)"
  by (simp add: quiet_def unlink_if_exists_def unlinkSync_def split: option.splits)

lemma quiet_cleanup: "quiet f (cleanup_stage env f)"
  unfolding cleanup_stage_def by (intro quiet_bind quiet_unlink)

lemma quiet_stages: "quiet f (stages env f s)"
  unfolding stages_def by (intro quiet_bind quiet_upscale quiet_sharp quiet_cleanup)

section \<open>The shape of a run\<close>

text \<open>
  A run of \<open>processImage\<close> on a string appends to the trace the start event, then
  effects whose progress events are step events of the file, then what the result of the
  \<^verbatim>\<open>try\<close> block decides: the complete event, the error event, or nothing when the
  process ends.
\<close>

lemma pipeline_result:
  "fst (pipeline env f s w) = fst (stages env f s w)"
  by (simp add: pipeline_stages io_bind_def emit_def split: prod.splits sum.splits)

lemma processImage_run:
  fixes env f s w
  defines "r \<equiv> fst (pipeline env f s (perform (Emit (Start f)) w))"
  shows "fst (processImage env (JString f) s w) = outcome r \<and>
         (\<exists>t. trace (snd (processImage env (JString f) s w)) =
                 trace w @ Emit (Start f) # t @ map Emit (closing env f r)
              \<and> list_all (step_of f) (emitted t))"
proof -
  let ?w1 = "perform (Emit (Start f)) w"
  from quiet_stages [of f env s] obtain t where
    t: "trace (snd (stages env f s ?w1)) = trace ?w1 @ t" "list_all (step_of f) (emitted t)"
    unfolding quiet_def by blast
  show ?thesis
  proof (cases "stages env f s ?w1")
    case (Pair q w2)
    show ?thesis
    proof (cases q)
      case (Inr u)
      with Pair t show ?thesis
        by (auto simp: r_def processImage_def pipeline_stages io_bind_def try_catch_def emit_def
            closing_def outcome_def)
    next
      case (Inl a)
      with Pair t show ?thesis
        by (cases a)
          (auto simp: r_def processImage_def pipeline_stages io_bind_def try_catch_def emit_def
            closing_def outcome_def)
    qed
  qed
qed

lemma processImage_events:
  "\<exists>steps. events_of (processImage env (JString f) s) w =
       Start f # steps @ closing env f (fst (pipeline env f s (perform (Emit (Start f)) w)))
     \<and> list_all (step_of f) steps"
proof -
  let ?r = "fst (pipeline env f s (perform (Emit (Start f)) w))"
  from processImage_run [of env f s w] obtain t where
    "trace (snd (processImage env (JString f) s w)) = trace w @ Emit (Start f) # t @ map Emit (closing env f ?r)"
    and "list_all (step_of f) (emitted t)"
    by blast
  moreover have "emitted (map Emit ps) = ps" for ps
    by (induction ps) simp_all
  ultimately show ?thesis
    by (intro exI [of _ "emitted t"]) (simp add: events_of_def effects_of_def)
qed

lemma steps_no_error: "list_all (step_of f) ps \<Longrightarrow> filter is_error ps = []"
proof (induction ps)
  case Nil
  show ?case by simp
next
  case (Cons p ps)
  then show ?case by (cases p) (simp_all add: step_of_def)
qed

lemma steps_are_steps: "list_all (step_of f) ps \<Longrightarrow> list_all is_step ps \<and> list_all (\<lambda>p. file_of p = f) ps"
  by (induction ps) (simp_all add: step_of_def)

section \<open>When the process ends\<close>

text \<open>Only the upscaling stage can end the process, and it does exactly when the run
  does not spawn cleanly.\<close>

lemma sharp_stage_caught: "fst (sharp_stage env f p w) \<noteq> Inl (Uncaught e)"
  by (auto simp: sharp_stage_def io_bind_def emit_def sharp_read_def toFile_def split: sum.splits)

lemma unlink_if_exists_caught: "fst (unlink_if_exists env p w) \<noteq> Inl (Uncaught e)"
  by (auto simp: unlink_if_exists_def unlinkSync_def split: option.splits)

lemma cleanup_stage_caught: "fst (cleanup_stage env f w) \<noteq> Inl (Uncaught e)"
proof -
  obtain r1 w1 where a: "unlink_if_exists env (tempUpscaledPath env f) w = (r1, w1)"
    by (cases "unlink_if_exists env (tempUpscaledPath env f) w")
  show ?thesis
    using a unlink_if_exists_caught [of env "tempUpscaledPath env f" w e]
      unlink_if_exists_caught [of env "inputPath env f" w1 e]
    by (cases r1) (auto simp: cleanup_stage_def io_bind_def)
qed

lemma finish_caught: "fst (finish env f p w) \<noteq> Inl (Uncaught e)"
proof -
  obtain r1 w1 where a: "sharp_stage env f p w = (r1, w1)"
    by (cases "sharp_stage env f p w")
  show ?thesis
    using a sharp_stage_caught [of env f p w e] cleanup_stage_caught [of env f w1 e]
    by (cases r1) (auto simp: finish_def io_bind_def)
qed

lemma stages_finish: "stages env f s = io_bind (upscale_stage env f s) (finish env f)"
  by (simp add: stages_def finish_def [abs_def])

lemma await_child_Inr: "await_child x = Inr u \<longleftrightarrow> x = Closed (Some 0)"
  by (cases x) (simp_all add: await_child_def on_close_def)

lemma await_child_Uncaught: "await_child x = Inl (Uncaught e) \<longleftrightarrow> x = ErrorEvent e"
  by (cases x) (simp_all add: await_child_def on_close_def)

lemma upscale_stage_eq:
  "upscale_stage env f s w =
     (case s of
        None \<Rightarrow> (Inl (Exception (JsError ''Cannot read properties of undefined (reading 'upscale')'')), w)
      | Some st \<Rightarrow>
          if upscale st then
            if isUpscaylAvailable w then
              (case executor env (UPSCAYL_BIN w) (upscayl_args env f st w) (files w) of
                 (fs', x) \<Rightarrow>
                   (case await_child x of Inl a \<Rightarrow> Inl a | Inr u \<Rightarrow> Inr (tempUpscaledPath env f),
                    (perform (Spawn (UPSCAYL_BIN w) (upscayl_args env f st w))
                       (perform (Emit (Step f ''Upscaling...'')) w))\<lparr>files := fs'\<rparr>))
            else (Inr (inputPath env f), perform (Emit (Step f skip_message)) w)
          else (Inr (inputPath env f), w))"
  by (simp add: upscale_stage_def io_bind_def emit_def spawn_def io_return_def Let_def
      split: option.splits prod.splits sum.splits)

lemma start_simps [simp]:
  "isUpscaylAvailable (perform e w) = isUpscaylAvailable w"
  "upscayl_args env f st (perform e w) = upscayl_args env f st w"
  by (simp_all add: isUpscaylAvailable_def upscayl_args_def)

lemma spawns_cleanly_perform [simp]:
  "spawns_cleanly env f s (perform e w) = spawns_cleanly env f s w"
  by (simp add: spawns_cleanly_def split: option.splits)

lemma settles_iff: "settles x \<longleftrightarrow> (\<forall>e. x \<noteq> ErrorEvent e)"
  by (cases x) simp_all

lemma upscale_stage_uncaught:
  "(\<exists>e. fst (upscale_stage env f s w) = Inl (Uncaught e)) \<longleftrightarrow> \<not> spawns_cleanly env f s w"
proof (cases s)
  case None
  then show ?thesis by (simp add: upscale_stage_eq spawns_cleanly_def)
next
  case (Some st)
  show ?thesis
  proof (cases "upscale st \<and> isUpscaylAvailable w")
    case False
    with Some show ?thesis by (auto simp: upscale_stage_eq spawns_cleanly_def)
  next
    case True
    obtain fs' x where ex: "executor env (UPSCAYL_BIN w) (upscayl_args env f st w) (files w) = (fs', x)"
      by (cases "executor env (UPSCAYL_BIN w) (upscayl_args env f st w) (files w)")
    have "(\<exists>e. fst (upscale_stage env f s w) = Inl (Uncaught e)) \<longleftrightarrow> (\<exists>e. await_child x = Inl (Uncaught e))"
      using Some True ex by (cases "await_child x") (simp_all add: upscale_stage_eq)
    also have "\<dots> \<longleftrightarrow> \<not> settles x"
      by (simp add: await_child_Uncaught settles_iff)
    finally show ?thesis
      using Some True ex by (simp add: spawns_cleanly_def)
  qed
qed

lemma stages_uncaught:
  "(\<exists>e. fst (stages env f s w) = Inl (Uncaught e)) \<longleftrightarrow> \<not> spawns_cleanly env f s w"
proof -
  obtain r1 w1 where a: "upscale_stage env f s w = (r1, w1)"
    by (cases "upscale_stage env f s w")
  have "(\<exists>e. fst (stages env f s w) = Inl (Uncaught e)) \<longleftrightarrow> (\<exists>e. r1 = Inl (Uncaught e))"
    using a finish_caught [of env f _ w1]
    by (cases r1) (auto simp: stages_finish io_bind_def)
  with a upscale_stage_uncaught [of env f s w] show ?thesis by simp
qed

lemma pipeline_uncaught:
  "(\<exists>e. fst (pipeline env f s w) = Inl (Uncaught e)) \<longleftrightarrow> \<not> spawns_cleanly env f s w"
  by (simp add: pipeline_result stages_uncaught)

lemma clean_outcome:
  assumes "spawns_cleanly env f s w"
  shows "outcome (fst (pipeline env f s (perform (Emit (Start f)) w))) = Inr ()"
    and "closing env f (fst (pipeline env f s (perform (Emit (Start f)) w))) =
           [terminal env f (fst (pipeline env f s (perform (Emit (Start f)) w)))]"
proof -
  let ?r = "fst (pipeline env f s (perform (Emit (Start f)) w))"
  from assms have n: "\<forall>e. ?r \<noteq> Inl (Uncaught e)"
    using pipeline_uncaught [of env f s "perform (Emit (Start f)) w"] by simp
  show "outcome ?r = Inr ()"
  proof (cases ?r)
    case (Inl a)
    with n show ?thesis by (cases a) (simp_all add: outcome_def)
  next
    case (Inr u)
    then show ?thesis by (simp add: outcome_def)
  qed
  show "closing env f ?r = [terminal env f ?r]"
  proof (cases ?r)
    case (Inl a)
    with n show ?thesis by (cases a) (simp_all add: closing_def terminal_def)
  next
    case (Inr u)
    then show ?thesis by (simp add: closing_def terminal_def)
  qed
qed


section \<open>One run\<close>

text \<open>
  C1, as stated, fails in two ways. A file name that is not a string makes
  \<^verbatim>\<open>path.join\<close> throw before the \<^verbatim>\<open>try\<close> block: \<open>processImage\<close> passes the
  exception on to its caller and emits nothing. And when the executable exists but cannot
  be started, the child's \<^verbatim>\<open>'error'\<close> event, which has no listener, ends the process:
  that failure is never turned into an error event.
\<close>

theorem processImage_never_throws_counterexample:
  "fst (processImage (lab_env 0) JUndefined (Some plain) (world_of installed)) =
     Inl (Exception (path_type_error (lab_env 0) JUndefined))
   \<and> events_of (processImage (lab_env 0) JUndefined (Some plain)) (world_of installed) = []
   \<and> isUpscaylAvailable (world_of installed)
   \<and> fst (processImage unrunnable_env (JString ''a.png'') (Some upscaling) (world_of installed)) =
     Inl (Uncaught (JsError ''spawn EACCES''))
   \<and> filter is_error (events_of (processImage unrunnable_env (JString ''a.png'') (Some upscaling))
        (world_of installed)) = []"
  by code_simp

text \<open>
  C1, amended. For every file name that is a string, every settings value (also a
  missing one) and every behaviour of the collaborators, a run that spawns cleanly (it
  spawns no child, or its child closes, or \<^verbatim>\<open>spawn\<close> throws) returns normally:
  \<open>processImage\<close> passes no exception on to its caller. Every failure raised in its \<^verbatim>\<open>try\<close> block is turned into exactly one error
  event, which carries the error's message; a run whose block raises nothing emits no
  error event.
\<close>

theorem processImage_never_throws:
  assumes "spawns_cleanly env f s w"
  shows "fst (processImage env (JString f) s w) = Inr () \<and>
   filter is_error (events_of (processImage env (JString f) s) w) =
     (case fst (pipeline env f s (snd (emit (Start f) w))) of
        Inl a \<Rightarrow> [Error f (message (reason a))]
      | Inr u \<Rightarrow> [])"
proof -
  let ?r = "fst (pipeline env f s (perform (Emit (Start f)) w))"
  from processImage_events [of env f s w] obtain steps where
    ev: "events_of (processImage env (JString f) s) w = Start f # steps @ closing env f ?r"
    and st: "list_all (step_of f) steps"
    by blast
  from st have "filter is_error steps = []" by (rule steps_no_error)
  with ev clean_outcome(2) [OF assms]
  have "filter is_error (events_of (processImage env (JString f) s) w) = filter is_error [terminal env f ?r]"
    by simp
  moreover have "fst (processImage env (JString f) s w) = Inr ()"
    using processImage_run [of env f s w] clean_outcome(1) [OF assms] by simp
  ultimately show ?thesis
    by (simp add: emit_def terminal_def split: sum.splits)
qed

theorem processImage_never_throws_witness:
  "spawns_cleanly (lab_env 1) ''a.png'' (Some upscaling) (world_of installed)
   \<and> fst (processImage (lab_env 1) (JString ''a.png'') (Some upscaling) (world_of installed)) = Inr ()
   \<and> filter is_error (events_of (processImage (lab_env 1) (JString ''a.png'') (Some upscaling)) (world_of installed))
       = [Error ''a.png'' ''Upscayl exited with code 1'']"
proof -
  have h: "spawns_cleanly (lab_env 1) ''a.png'' (Some upscaling) (world_of installed)"
    by code_simp
  have e: "(case fst (pipeline (lab_env 1) ''a.png'' (Some upscaling) (snd (emit (Start ''a.png'') (world_of installed)))) of
        Inl a \<Rightarrow> [Error ''a.png'' (message (reason a))]
      | Inr u \<Rightarrow> []) = [Error ''a.png'' ''Upscayl exited with code 1'']"
    by code_simp
  from processImage_never_throws [OF h] h e show ?thesis by simp
qed

text \<open>
  C2, as stated, fails in the same two runs: for a name that is not a string no event is
  emitted at all, and when the child cannot be started the events are the start event and
  the upscaling step, with no terminal event.
\<close>

theorem processImage_event_sequence_counterexample:
  "events_of (processImage (lab_env 0) JUndefined (Some plain)) (world_of installed) = []
   \<and> isUpscaylAvailable (world_of installed)
   \<and> events_of (processImage unrunnable_env (JString ''a.png'') (Some upscaling)) (world_of installed) =
       [Start ''a.png'', Step ''a.png'' ''Upscaling...'']"
  by code_simp

text \<open>
  C2, amended. For a file name that is a string, in a run that spawns cleanly (it spawns
  no child, or its child closes, or \<^verbatim>\<open>spawn\<close> throws), the progress events are exactly: one start event, then zero or more step
  events, then one terminal event, complete or error, all of them for that file. Nothing
  precedes the start event and nothing follows the terminal event.
\<close>

theorem processImage_event_sequence:
  assumes "spawns_cleanly env f s w"
  shows "\<exists>steps last.
     events_of (processImage env (JString f) s) w = Start f # steps @ [last]
     \<and> list_all is_step steps
     \<and> list_all (\<lambda>p. file_of p = f) steps
     \<and> ((\<exists>out. last = Complete f out) \<or> (\<exists>msg. last = Error f msg))"
proof -
  let ?r = "fst (pipeline env f s (perform (Emit (Start f)) w))"
  from processImage_events [of env f s w] obtain steps where
    "events_of (processImage env (JString f) s) w = Start f # steps @ closing env f ?r"
    and st: "list_all (step_of f) steps"
    by blast
  with clean_outcome(2) [OF assms]
  have ev: "events_of (processImage env (JString f) s) w = Start f # steps @ [terminal env f ?r]"
    by simp
  have "(\<exists>out. terminal env f ?r = Complete f out) \<or> (\<exists>msg. terminal env f ?r = Error f msg)"
    by (cases ?r) (simp_all add: terminal_def)
  with ev steps_are_steps [OF st] show ?thesis by blast
qed

theorem processImage_event_sequence_witness:
  "spawns_cleanly (lab_env 0) ''a.png'' (Some upscaling) (world_of installed)
   \<and> events_of (processImage (lab_env 0) (JString ''a.png'') (Some upscaling)) (world_of installed) =
       [Start ''a.png'', Step ''a.png'' ''Upscaling...'', Step ''a.png'' ''Optimizing & Tagging...'',
        Complete ''a.png'' ''/output/a.jpg'']
   \<and> (\<exists>steps last.
        events_of (processImage (lab_env 0) (JString ''a.png'') (Some upscaling)) (world_of installed) =
          Start ''a.png'' # steps @ [last]
        \<and> list_all is_step steps
        \<and> list_all (\<lambda>p. file_of p = ''a.png'') steps
        \<and> ((\<exists>out. last = Complete ''a.png'' out) \<or> (\<exists>msg. last = Error ''a.png'' msg)))"
proof -
  have h: "spawns_cleanly (lab_env 0) ''a.png'' (Some upscaling) (world_of installed)"
    by code_simp
  have e: "events_of (processImage (lab_env 0) (JString ''a.png'') (Some upscaling)) (world_of installed) =
       [Start ''a.png'', Step ''a.png'' ''Upscaling...'', Step ''a.png'' ''Optimizing & Tagging...'',
        Complete ''a.png'' ''/output/a.jpg'']"
    by code_simp
  from processImage_event_sequence [OF h] h e show ?thesis by blast
qed

section \<open>Facts about the stages\<close>










section \<open>Facts about paths\<close>








section \<open>Files after a successful run\<close>




section \<open>The run, by what the upscaling stage does\<close>

lemma sharp_stage_shape:
  "\<exists>L. trace (snd (sharp_stage env f p w)) = trace w @ Emit (Step f ''Optimizing & Tagging...'') # L
       \<and> list_all (late env f p) L"
  by (auto simp: sharp_stage_def io_bind_def emit_def sharp_read_def toFile_def late_def
      split: sum.splits)

lemma unlink_if_exists_shape:
  "\<exists>L. trace (snd (unlink_if_exists env q w)) = trace w @ L \<and> list_all (\<lambda>e. e = Unlink q) L"
  by (auto simp: unlink_if_exists_def unlinkSync_def split: option.splits)

lemma cleanup_stage_shape:
  "\<exists>L. trace (snd (cleanup_stage env f w)) = trace w @ L \<and> list_all (late env f p) L"
proof -
  obtain r1 w1 where a: "unlink_if_exists env (tempUpscaledPath env f) w = (r1, w1)"
    by (cases "unlink_if_exists env (tempUpscaledPath env f) w")
  from unlink_if_exists_shape [of env "tempUpscaledPath env f" w] a obtain L1 where
    L1: "trace w1 = trace w @ L1" "list_all (\<lambda>e. e = Unlink (tempUpscaledPath env f)) L1"
    by auto
  from unlink_if_exists_shape [of env "inputPath env f" w1] obtain L2 where
    L2: "trace (snd (unlink_if_exists env (inputPath env f) w1)) = trace w1 @ L2"
        "list_all (\<lambda>e. e = Unlink (inputPath env f)) L2"
    by auto
  show ?thesis
  proof (cases r1)
    case (Inl e)
    with a L1 show ?thesis
      by (intro exI [of _ L1]) (auto simp: cleanup_stage_def io_bind_def late_def list_all_iff)
  next
    case (Inr x)
    with a L1 L2 show ?thesis
      by (intro exI [of _ "L1 @ L2"]) (auto simp: cleanup_stage_def io_bind_def late_def list_all_iff)
  qed
qed

lemma finish_shape:
  "\<exists>L. trace (snd (finish env f p w)) = trace w @ Emit (Step f ''Optimizing & Tagging...'') # L
       \<and> list_all (late env f p) L"
proof -
  obtain r1 w1 where a: "sharp_stage env f p w = (r1, w1)"
    by (cases "sharp_stage env f p w")
  from sharp_stage_shape [of env f p w] a obtain L1 where
    L1: "trace w1 = trace w @ Emit (Step f ''Optimizing & Tagging...'') # L1" "list_all (late env f p) L1"
    by auto
  from cleanup_stage_shape [of env f w1 p] obtain L2 where
    L2: "trace (snd (cleanup_stage env f w1)) = trace w1 @ L2" "list_all (late env f p) L2"
    by auto
  show ?thesis
  proof (cases r1)
    case (Inl e)
    with a L1 show ?thesis
      by (intro exI [of _ L1]) (simp add: finish_def io_bind_def)
  next
    case (Inr x)
    with a L1 L2 show ?thesis
      by (intro exI [of _ "L1 @ L2"]) (simp add: finish_def io_bind_def)
  qed
qed

lemma after_upscale_shape:
  "fst (after_upscale env f p w) = Inr () \<and>
   (\<exists>L. trace (snd (after_upscale env f p w)) =
          trace w @ Emit (Step f ''Optimizing & Tagging...'') # L @ [Emit (terminal env f (fst (finish env f p w)))]
       \<and> list_all (late env f p) L)"
proof -
  from finish_shape [of env f p w] obtain L where
    L: "trace (snd (finish env f p w)) = trace w @ Emit (Step f ''Optimizing & Tagging...'') # L"
       "list_all (late env f p) L"
    by blast
  show ?thesis
  proof (cases "finish env f p w")
    case (Pair r w1)
    show ?thesis
    proof (cases r)
      case (Inr u)
      with Pair L show ?thesis
        by (auto simp: after_upscale_def try_catch_def io_bind_def emit_def terminal_def)
    next
      case (Inl a)
      with Pair finish_caught [of env f p w] obtain e where "a = Exception e"
        by (cases a) auto
      with Inl Pair L show ?thesis
        by (auto simp: after_upscale_def try_catch_def io_bind_def emit_def terminal_def)
    qed
  qed
qed

lemma processImage_cases:
  "processImage env (JString f) s w =
     (case upscale_stage env f s (perform (Emit (Start f)) w) of
        (Inl (Exception e), w2) \<Rightarrow> (Inr (), perform (Emit (Error f (message e))) w2)
      | (Inl (Uncaught e), w2) \<Rightarrow> (Inl (Uncaught e), w2)
      | (Inr p, w2) \<Rightarrow> after_upscale env f p w2)"
  by (simp add: processImage_def pipeline_def after_upscale_def finish_def io_bind_def try_catch_def emit_def
      split: prod.splits sum.splits abrupt.splits)

lemma effects_no_settings:
  "processImage env (JString f) None w =
     (Inr (), perform (Emit (Error f ''Cannot read properties of undefined (reading 'upscale')''))
                (perform (Emit (Start f)) w))"
  by (simp add: processImage_cases upscale_stage_eq)

lemma effects_after:
  assumes "processImage env (JString f) s w = after_upscale env f p w2" and "trace w2 = trace w @ pre"
  shows "\<exists>L. effects_of (processImage env (JString f) s) w =
            pre @ Emit (Step f ''Optimizing & Tagging...'') # L @ [Emit (terminal env f (fst (finish env f p w2)))]
          \<and> list_all (late env f p) L"
proof -
  from after_upscale_shape [of env f p w2] obtain L where
    "trace (snd (after_upscale env f p w2)) =
          trace w2 @ Emit (Step f ''Optimizing & Tagging...'') # L @ [Emit (terminal env f (fst (finish env f p w2)))]"
    "list_all (late env f p) L"
    by blast
  with assms show ?thesis
    by (intro exI [of _ L]) (simp add: effects_of_def)
qed

lemma effects_no_upscale:
  assumes "\<not> upscale st"
  shows "\<exists>L. effects_of (processImage env (JString f) (Some st)) w =
            [Emit (Start f)] @ Emit (Step f ''Optimizing & Tagging...'') # L @
            [Emit (terminal env f (fst (finish env f (inputPath env f) (perform (Emit (Start f)) w))))]
          \<and> list_all (late env f (inputPath env f)) L"
proof (rule effects_after)
  show "processImage env (JString f) (Some st) w =
      after_upscale env f (inputPath env f) (perform (Emit (Start f)) w)"
    using assms by (simp add: processImage_cases upscale_stage_eq)
qed simp

lemma effects_skip:
  assumes "upscale st" and "\<not> isUpscaylAvailable w"
  shows "\<exists>L. effects_of (processImage env (JString f) (Some st)) w =
            [Emit (Start f), Emit (Step f skip_message)] @ Emit (Step f ''Optimizing & Tagging...'') # L @
            [Emit (terminal env f (fst (finish env f (inputPath env f)
                (perform (Emit (Step f skip_message)) (perform (Emit (Start f)) w)))))]
          \<and> list_all (late env f (inputPath env f)) L"
proof (rule effects_after)
  show "processImage env (JString f) (Some st) w =
      after_upscale env f (inputPath env f) (perform (Emit (Step f skip_message)) (perform (Emit (Start f)) w))"
    using assms by (simp add: processImage_cases upscale_stage_eq)
qed simp

lemma effects_exit_fail:
  assumes "upscale st" and "isUpscaylAvailable w"
    and "executor env (UPSCAYL_BIN w) (upscayl_args env f st w) (files w) = (fs', x)"
    and "await_child x = Inl (Exception e)"
  shows "effects_of (processImage env (JString f) (Some st)) w =
            [Emit (Start f), Emit (Step f ''Upscaling...''), Spawn (UPSCAYL_BIN w) (upscayl_args env f st w),
             Emit (Error f (message e))]"
    and "files (snd (processImage env (JString f) (Some st) w)) = fs'"
    and "fst (processImage env (JString f) (Some st) w) = Inr ()"
  using assms by (simp_all add: processImage_cases upscale_stage_eq effects_of_def)

lemma effects_crash:
  assumes "upscale st" and "isUpscaylAvailable w"
    and "executor env (UPSCAYL_BIN w) (upscayl_args env f st w) (files w) = (fs', x)"
    and "await_child x = Inl (Uncaught e)"
  shows "effects_of (processImage env (JString f) (Some st)) w =
            [Emit (Start f), Emit (Step f ''Upscaling...''), Spawn (UPSCAYL_BIN w) (upscayl_args env f st w)]"
    and "fst (processImage env (JString f) (Some st) w) = Inl (Uncaught e)"
  using assms by (simp_all add: processImage_cases upscale_stage_eq effects_of_def)

lemma effects_exit_ok:
  assumes "upscale st" and "isUpscaylAvailable w"
    and "executor env (UPSCAYL_BIN w) (upscayl_args env f st w) (files w) = (fs', x)"
    and "await_child x = Inr u"
  shows "\<exists>L. effects_of (processImage env (JString f) (Some st)) w =
            [Emit (Start f), Emit (Step f ''Upscaling...''), Spawn (UPSCAYL_BIN w) (upscayl_args env f st w)] @
            Emit (Step f ''Optimizing & Tagging...'') # L @
            [Emit (terminal env f (fst (finish env f (tempUpscaledPath env f)
                ((perform (Spawn (UPSCAYL_BIN w) (upscayl_args env f st w))
                   (perform (Emit (Step f ''Upscaling...'')) (perform (Emit (Start f)) w)))\<lparr>files := fs'\<rparr>))))]
          \<and> list_all (late env f (tempUpscaledPath env f)) L"
proof (rule effects_after)
  show "processImage env (JString f) (Some st) w =
      after_upscale env f (tempUpscaledPath env f)
        ((perform (Spawn (UPSCAYL_BIN w) (upscayl_args env f st w))
                   (perform (Emit (Step f ''Upscaling...'')) (perform (Emit (Start f)) w)))\<lparr>files := fs'\<rparr>)"
    using assms by (simp add: processImage_cases upscale_stage_eq)
qed simp

lemma late_not_spawn: "list_all (late env f p) L \<Longrightarrow> Spawn bin args \<notin> set L"
  by (auto simp: list_all_iff late_def)

lemma late_not_emit: "list_all (late env f p) L \<Longrightarrow> emitted L = []"
  by (induction L) (auto simp: late_def)

section \<open>The executable\<close>

text \<open>
  C4. When upscaling is requested, the executable exists and the child exits with a
  nonzero code, the run consists of the start event, the upscaling step, the invocation,
  and one error event whose message ends with the exit code. Normalization, re-encoding
  and cleanup do not run: the file system is left as the executable left it, so the input
  file is not deleted and an intermediate file the executable produced stays behind.
\<close>

theorem nonzero_exit_code:
  assumes "upscale st" and "isUpscaylAvailable w"
    and "executor env (UPSCAYL_BIN w) (upscayl_args env f st w) (files w) = (fs', Closed (Some code))"
    and "code \<noteq> 0"
  shows "effects_of (processImage env (JString f) (Some st)) w =
           [Emit (Start f), Emit (Step f ''Upscaling...''), Spawn (UPSCAYL_BIN w) (upscayl_args env f st w),
            Emit (Error f (''Upscayl exited with code '' @ string_of_int code))]
       \<and> files (snd (processImage env (JString f) (Some st) w)) = fs'"
proof -
  from assms(4) have "await_child (Closed (Some code)) =
      Inl (Exception (JsError (''Upscayl exited with code '' @ string_of_int code)))"
    by (simp add: await_child_def on_close_def string_of_code_def)
  from effects_exit_fail(1,2) [OF assms(1) assms(2) assms(3) this] show ?thesis by simp
qed

theorem nonzero_exit_code_witness:
  "upscale upscaling \<and> isUpscaylAvailable (world_of installed)
   \<and> effects_of (processImage (lab_env 1) (JString ''a.png'') (Some upscaling)) (world_of installed) =
       [Emit (Start ''a.png''), Emit (Step ''a.png'' ''Upscaling...''),
        Spawn (UPSCAYL_BIN (world_of installed)) (upscayl_args (lab_env 1) ''a.png'' upscaling (world_of installed)),
        Emit (Error ''a.png'' (''Upscayl exited with code '' @ string_of_int 1))]
   \<and> files (snd (processImage (lab_env 1) (JString ''a.png'') (Some upscaling) (world_of installed))) =
       fs_write (Joined [''app'', ''temp'', ''a.png'']) ''upscaled'' installed
   \<and> existsSync (fs_write (Joined [''app'', ''temp'', ''a.png'']) ''upscaled'' installed)
        (inputPath (lab_env 1) ''a.png'')
   \<and> existsSync (fs_write (Joined [''app'', ''temp'', ''a.png'']) ''upscaled'' installed)
        (tempUpscaledPath (lab_env 1) ''a.png'')"
proof -
  have a: "upscale upscaling" by (simp add: upscaling_def)
  have b: "isUpscaylAvailable (world_of installed)" by code_simp
  have c: "executor (lab_env 1) (UPSCAYL_BIN (world_of installed))
             (upscayl_args (lab_env 1) ''a.png'' upscaling (world_of installed)) (files (world_of installed)) =
           (fs_write (Joined [''app'', ''temp'', ''a.png'']) ''upscaled'' installed, Closed (Some 1))"
    by code_simp
  have d: "(1::int) \<noteq> 0" by simp
  have e: "existsSync (fs_write (Joined [''app'', ''temp'', ''a.png'']) ''upscaled'' installed)
        (inputPath (lab_env 1) ''a.png'')"
    by code_simp
  have f: "existsSync (fs_write (Joined [''app'', ''temp'', ''a.png'']) ''upscaled'' installed)
        (tempUpscaledPath (lab_env 1) ''a.png'')"
    by code_simp
  from nonzero_exit_code [OF a b c d] a b e f show ?thesis by simp
qed

text \<open>
  C7. Whenever a run invokes the external executable, it invokes the configured binary
  with exactly these arguments: the input path, the intermediate output path, scale
  factor 4, the configured models directory, the model name of the settings (the default
  identifier when the model is unset), and output format \<^verbatim>\<open>png\<close>. The run goes on to
  the next stage exactly when the child closes with exit code 0.
\<close>

theorem executor_arguments:
  assumes "Spawn bin args \<in> set (effects_of (processImage env (JString f) s) w)"
  shows "\<exists>st. s = Some st \<and> bin = UPSCAYL_BIN w
       \<and> args = [S ''-i'', P (path_join (DIRS env Input) f), S ''-o'', P (path_join (DIRS env Temp) f),
                 S ''-s'', S ''4'',
                 S ''-m'', P (Abs (MODELS_PATH w)),
                 S ''-n'', S (case model st of None \<Rightarrow> ''upscayl-standard-4x''
                              | Some m \<Rightarrow> if m = [] then ''upscayl-standard-4x'' else m),
                 S ''-f'', S ''png'']
       \<and> (Step f ''Optimizing & Tagging...'' \<in> set (events_of (processImage env (JString f) s) w)
            \<longleftrightarrow> snd (executor env bin args (files w)) = Closed (Some 0))"
proof (cases s)
  case None
  with assms show ?thesis by (simp add: effects_no_settings effects_of_def)
next
  case (Some st)
  have args: "upscayl_args env f st w =
                [S ''-i'', P (path_join (DIRS env Input) f), S ''-o'', P (path_join (DIRS env Temp) f),
                 S ''-s'', S ''4'',
                 S ''-m'', P (Abs (MODELS_PATH w)),
                 S ''-n'', S (case model st of None \<Rightarrow> ''upscayl-standard-4x''
                              | Some m \<Rightarrow> if m = [] then ''upscayl-standard-4x'' else m),
                 S ''-f'', S ''png'']"
    by (simp add: upscayl_args_def inputPath_def tempUpscaledPath_def model_name_def)
  show ?thesis
  proof (cases "upscale st")
    case False
    from effects_no_upscale [OF False, of env f w] obtain L where
      "effects_of (processImage env (JString f) (Some st)) w =
            [Emit (Start f)] @ Emit (Step f ''Optimizing & Tagging...'') # L @
            [Emit (terminal env f (fst (finish env f (inputPath env f) (perform (Emit (Start f)) w))))]"
      "list_all (late env f (inputPath env f)) L"
      by blast
    with assms Some late_not_spawn [of env f "inputPath env f" L bin args] show ?thesis by auto
  next
    case True
    show ?thesis
    proof (cases "isUpscaylAvailable w")
      case False
      from effects_skip [OF True False, of env f] obtain L where
        "effects_of (processImage env (JString f) (Some st)) w =
            [Emit (Start f), Emit (Step f skip_message)] @ Emit (Step f ''Optimizing & Tagging...'') # L @
            [Emit (terminal env f (fst (finish env f (inputPath env f)
                (perform (Emit (Step f skip_message)) (perform (Emit (Start f)) w)))))]"
        "list_all (late env f (inputPath env f)) L"
        by blast
      with assms Some late_not_spawn [of env f "inputPath env f" L bin args] show ?thesis by auto
    next
      case avail: True
      obtain fs' x where ex: "executor env (UPSCAYL_BIN w) (upscayl_args env f st w) (files w) = (fs', x)"
        by (cases "executor env (UPSCAYL_BIN w) (upscayl_args env f st w) (files w)")
      show ?thesis
      proof (cases "await_child x")
        case (Inl a)
        have eff: "\<exists>tl. effects_of (processImage env (JString f) (Some st)) w =
            [Emit (Start f), Emit (Step f ''Upscaling...''), Spawn (UPSCAYL_BIN w) (upscayl_args env f st w)] @ tl
            \<and> emitted tl = (case a of Exception e \<Rightarrow> [Error f (message e)] | Uncaught e \<Rightarrow> [])
            \<and> (\<forall>b c. Spawn b c \<notin> set tl)"
        proof (cases a)
          case (Exception e)
          with Inl effects_exit_fail(1) [OF True avail ex, of e] show ?thesis by simp
        next
          case (Uncaught e)
          with Inl effects_crash(1) [OF True avail ex, of e] show ?thesis by simp
        qed
        then obtain tl where
          tl: "effects_of (processImage env (JString f) (Some st)) w =
            [Emit (Start f), Emit (Step f ''Upscaling...''), Spawn (UPSCAYL_BIN w) (upscayl_args env f st w)] @ tl"
            "emitted tl = (case a of Exception e \<Rightarrow> [Error f (message e)] | Uncaught e \<Rightarrow> [])"
            "\<forall>b c. Spawn b c \<notin> set tl"
          by blast
        with assms Some have ba: "bin = UPSCAYL_BIN w" "args = upscayl_args env f st w" by auto
        from Inl have "x \<noteq> Closed (Some 0)" using await_child_Inr [of x "()"] by auto
        moreover have "Step f ''Optimizing & Tagging...'' \<notin> set (events_of (processImage env (JString f) (Some st)) w)"
          using tl(1) tl(2) by (cases a) (simp_all add: events_of_def)
        ultimately show ?thesis
          using ba ex Some args by simp
      next
        case (Inr u)
        from effects_exit_ok [OF True avail ex Inr] obtain L where
          eff: "effects_of (processImage env (JString f) (Some st)) w =
            [Emit (Start f), Emit (Step f ''Upscaling...''), Spawn (UPSCAYL_BIN w) (upscayl_args env f st w)] @
            Emit (Step f ''Optimizing & Tagging...'') # L @
            [Emit (terminal env f (fst (finish env f (tempUpscaledPath env f)
                ((perform (Spawn (UPSCAYL_BIN w) (upscayl_args env f st w))
                   (perform (Emit (Step f ''Upscaling...'')) (perform (Emit (Start f)) w)))\<lparr>files := fs'\<rparr>))))]"
          and L: "list_all (late env f (tempUpscaledPath env f)) L"
          by blast
        with assms Some late_not_spawn [of env f "tempUpscaledPath env f" L bin args]
        have ba: "bin = UPSCAYL_BIN w" "args = upscayl_args env f st w" by auto
        from Inr have "x = Closed (Some 0)" using await_child_Inr [of x u] by simp
        with eff ba ex Some args show ?thesis by (simp add: events_of_def)
      qed
    qed
  qed
qed

theorem executor_arguments_witness:
  "Spawn ''/opt/upscayl/bin/upscayl-bin''
      [S ''-i'', P (Joined [''app'', ''input'', ''a.png'']), S ''-o'', P (Joined [''app'', ''temp'', ''a.png'']),
       S ''-s'', S ''4'',
       S ''-m'', P (Abs ''/opt/upscayl/models''), S ''-n'', S ''upscayl-standard-4x'', S ''-f'', S ''png'']
     \<in> set (effects_of (processImage (lab_env 0) (JString ''a.png'') (Some upscaling)) (world_of installed))
   \<and> Step ''a.png'' ''Optimizing & Tagging...''
     \<in> set (events_of (processImage (lab_env 0) (JString ''a.png'') (Some upscaling)) (world_of installed))"
proof -
  have h: "Spawn ''/opt/upscayl/bin/upscayl-bin''
      [S ''-i'', P (Joined [''app'', ''input'', ''a.png'']), S ''-o'', P (Joined [''app'', ''temp'', ''a.png'']),
       S ''-s'', S ''4'',
       S ''-m'', P (Abs ''/opt/upscayl/models''), S ''-n'', S ''upscayl-standard-4x'', S ''-f'', S ''png'']
     \<in> set (effects_of (processImage (lab_env 0) (JString ''a.png'') (Some upscaling)) (world_of installed))"
    by code_simp
  have x: "snd (executor (lab_env 0) ''/opt/upscayl/bin/upscayl-bin''
      [S ''-i'', P (Joined [''app'', ''input'', ''a.png'']), S ''-o'', P (Joined [''app'', ''temp'', ''a.png'']),
       S ''-s'', S ''4'',
       S ''-m'', P (Abs ''/opt/upscayl/models''), S ''-n'', S ''upscayl-standard-4x'', S ''-f'', S ''png'']
      (files (world_of installed))) = Closed (Some 0)"
    by (simp add: lab_env_def)
  from executor_arguments [OF h] x h show ?thesis by blast
qed

section \<open>The missing executable\<close>

text \<open>
  C5, as stated, fails: with upscaling requested and no executable on disk, a run on a
  file that the image library rejects ends with the error event, not with the complete
  event.
\<close>

theorem missing_executable_counterexample:
  "upscale upscaling
   \<and> \<not> isUpscaylAvailable (world_of [(Joined [''app'', ''input'', ''scan.png''], ''not an image'')])
   \<and> inputPath (lab_env 0) ''scan.png'' = Joined [''app'', ''input'', ''scan.png'']
   \<and> events_of (processImage (lab_env 0) (JString ''scan.png'') (Some upscaling))
        (world_of [(Joined [''app'', ''input'', ''scan.png''], ''not an image'')]) =
      [Start ''scan.png'', Step ''scan.png'' skip_message,
       Step ''scan.png'' ''Optimizing & Tagging...'',
       Error ''scan.png'' ''Input file contains unsupported image format'']"
  by code_simp

text \<open>
  C5, amended. With upscaling requested and the configured executable absent from disk,
  the run emits the start event, the step event with the warning sign, and the step
  event of the next stage: exactly one step event carries the warning sign. It never
  invokes the executable; every read of the image library is of the original input file; and the run
  ends with the complete event when normalization, re-encoding and cleanup raise nothing,
  with the error event of what they raise otherwise.
\<close>

theorem missing_executable_soft_skip:
  assumes "upscale st" and "\<not> isUpscaylAvailable w"
  shows "(\<exists>rest. effects_of (processImage env (JString f) (Some st)) w =
            [Emit (Start f), Emit (Step f skip_message), Emit (Step f ''Optimizing & Tagging...'')] @ rest @
            [Emit (case fst (io_bind (sharp_stage env f (path_join (DIRS env Input) f)) (\<lambda>_. cleanup_stage env f)
                              (snd (emit (Step f skip_message) (snd (emit (Start f) w))))) of
                     Inl a \<Rightarrow> Error f (message (reason a))
                   | Inr u \<Rightarrow> Complete f (output_url env f))]
          \<and> list_all (\<lambda>e. e = SharpRead (path_join (DIRS env Input) f)
                          \<or> e = WriteFile (path_join (DIRS env Output) (parse_name f @ ''.jpg''))
                          \<or> e = Unlink (path_join (DIRS env Temp) f)
                          \<or> e = Unlink (path_join (DIRS env Input) f)) rest)
       \<and> filter (\<lambda>p. is_step p \<and> str_includes (text_of p) warning_sign)
            (events_of (processImage env (JString f) (Some st)) w) = [Step f skip_message]
       \<and> list_all (\<lambda>e. \<forall>bin args. e \<noteq> Spawn bin args) (effects_of (processImage env (JString f) (Some st)) w)"
proof -
  from effects_skip [OF assms, of env f] obtain L where
    eff: "effects_of (processImage env (JString f) (Some st)) w =
            [Emit (Start f), Emit (Step f skip_message)] @ Emit (Step f ''Optimizing & Tagging...'') # L @
            [Emit (terminal env f (fst (finish env f (inputPath env f)
                (perform (Emit (Step f skip_message)) (perform (Emit (Start f)) w)))))]"
    and L: "list_all (late env f (inputPath env f)) L"
    by blast
  let ?r = "fst (finish env f (inputPath env f)
                (perform (Emit (Step f skip_message)) (perform (Emit (Start f)) w)))"
  from L have rest: "list_all (\<lambda>e. e = SharpRead (path_join (DIRS env Input) f)
                          \<or> e = WriteFile (path_join (DIRS env Output) (parse_name f @ ''.jpg''))
                          \<or> e = Unlink (path_join (DIRS env Temp) f)
                          \<or> e = Unlink (path_join (DIRS env Input) f)) L"
    by (simp add: late_def [abs_def] inputPath_def tempUpscaledPath_def finalOutputPath_def)
  have sign: "str_includes skip_message warning_sign" by code_simp
  have plain: "\<not> str_includes ''Optimizing & Tagging...'' warning_sign" by code_simp
  have last: "\<not> is_step (terminal env f ?r)"
    by (cases ?r) (simp_all add: terminal_def)
  have "events_of (processImage env (JString f) (Some st)) w =
      [Start f, Step f skip_message, Step f ''Optimizing & Tagging...'', terminal env f ?r]"
    using eff late_not_emit [OF L] by (simp add: events_of_def)
  with sign plain last
  have one: "filter (\<lambda>p. is_step p \<and> str_includes (text_of p) warning_sign)
            (events_of (processImage env (JString f) (Some st)) w) = [Step f skip_message]"
    by simp
  have none: "list_all (\<lambda>e. \<forall>bin args. e \<noteq> Spawn bin args) (effects_of (processImage env (JString f) (Some st)) w)"
    using eff L by (auto simp: list_all_iff late_def)
  from eff rest have "\<exists>rest. effects_of (processImage env (JString f) (Some st)) w =
            [Emit (Start f), Emit (Step f skip_message), Emit (Step f ''Optimizing & Tagging...'')] @ rest @
            [Emit (case fst (io_bind (sharp_stage env f (path_join (DIRS env Input) f)) (\<lambda>_. cleanup_stage env f)
                              (snd (emit (Step f skip_message) (snd (emit (Start f) w))))) of
                     Inl a \<Rightarrow> Error f (message (reason a))
                   | Inr u \<Rightarrow> Complete f (output_url env f))]
          \<and> list_all (\<lambda>e. e = SharpRead (path_join (DIRS env Input) f)
                          \<or> e = WriteFile (path_join (DIRS env Output) (parse_name f @ ''.jpg''))
                          \<or> e = Unlink (path_join (DIRS env Temp) f)
                          \<or> e = Unlink (path_join (DIRS env Input) f)) rest"
    by (intro exI [of _ L]) (simp add: terminal_def finish_def [abs_def] inputPath_def emit_def)
  with one none show ?thesis by blast
qed

theorem missing_executable_soft_skip_witness:
  "upscale upscaling \<and> \<not> isUpscaylAvailable (world_of [(Joined [''app'', ''input'', ''a.png''], ''pixels'')])
   \<and> events_of (processImage (lab_env 0) (JString ''a.png'') (Some upscaling))
        (world_of [(Joined [''app'', ''input'', ''a.png''], ''pixels'')]) =
       [Start ''a.png'', Step ''a.png'' skip_message, Step ''a.png'' ''Optimizing & Tagging...'',
        Complete ''a.png'' ''/output/a.jpg'']
   \<and> filter (\<lambda>p. is_step p \<and> str_includes (text_of p) warning_sign)
         (events_of (processImage (lab_env 0) (JString ''a.png'') (Some upscaling))
            (world_of [(Joined [''app'', ''input'', ''a.png''], ''pixels'')]))
       = [Step ''a.png'' skip_message]"
proof -
  have a: "upscale upscaling" by (simp add: upscaling_def)
  have b: "\<not> isUpscaylAvailable (world_of [(Joined [''app'', ''input'', ''a.png''], ''pixels'')])" by code_simp
  have c: "events_of (processImage (lab_env 0) (JString ''a.png'') (Some upscaling))
        (world_of [(Joined [''app'', ''input'', ''a.png''], ''pixels'')]) =
       [Start ''a.png'', Step ''a.png'' skip_message, Step ''a.png'' ''Optimizing & Tagging...'',
        Complete ''a.png'' ''/output/a.jpg'']" by code_simp
  from missing_executable_soft_skip [OF a b, of "lab_env 0" "''a.png''"] a b c show ?thesis by blast
qed

section \<open>The two routes\<close>

text \<open>
  C9. A configuration write whose body has no \<^verbatim>\<open>path\<close> field leaves the stored
  executable path and the models directory as they were, touches nothing else, and
  replies with success and the current values.
\<close>

theorem config_without_path:
  "post_config env None w = (Inr (), snd (reply (ConfigSaved True (UPSCAYL_BIN w) (MODELS_PATH w)) w))
   \<and> UPSCAYL_BIN (snd (post_config env None w)) = UPSCAYL_BIN w
   \<and> MODELS_PATH (snd (post_config env None w)) = MODELS_PATH w
   \<and> files (snd (post_config env None w)) = files w
   \<and> effects_of (post_config env None) w = [Reply (ConfigSaved True (UPSCAYL_BIN w) (MODELS_PATH w))]"
  by (simp add: post_config_def reply_def effects_of_def)

lemma processImage_no_exception: "fst (processImage env (JString f) s w) \<noteq> Inl (Exception e)"
proof -
  let ?r = "fst (pipeline env f s (perform (Emit (Start f)) w))"
  have "outcome ?r \<noteq> Inl (Exception e)"
  proof (cases ?r)
    case (Inl a)
    then show ?thesis by (cases a) (simp_all add: outcome_def)
  next
    case (Inr u)
    then show ?thesis by (simp add: outcome_def)
  qed
  then show ?thesis using processImage_run [of env f s w] by simp
qed

text \<open>
  C8. When the batch trigger names a file, that is any string other than \<^verbatim>\<open>all\<close>,
  the route replies with count 1 and runs \<open>processImage\<close> on that very name: neither the
  extension filter nor the existence of the file is consulted.
\<close>

theorem single_file_trigger:
  assumes "filename \<noteq> ''all''"
  shows "post_process env (JString filename) s w =
           processImage env (JString filename) s (snd (reply (Started 1) w))"
proof -
  let ?w1 = "perform (Reply (Started 1)) w"
  obtain r w' where run: "processImage env (JString filename) s ?w1 = (r, w')"
    by (cases "processImage env (JString filename) s ?w1")
  show ?thesis
  proof (cases r)
    case (Inr u)
    with run assms show ?thesis
      by (simp add: post_process_def resolve_files_def try_catch_def io_bind_def io_return_def reply_def)
  next
    case (Inl a)
    with run processImage_no_exception [of env filename s ?w1] obtain e where "a = Uncaught e"
      by (cases a) auto
    with Inl run assms show ?thesis
      by (simp add: post_process_def resolve_files_def try_catch_def io_bind_def io_return_def reply_def)
  qed
qed

theorem single_file_trigger_witness:
  "''notes.txt'' \<noteq> ''all'' \<and> \<not> is_image ''notes.txt''
   \<and> \<not> existsSync (files (world_of [])) (inputPath (lab_env 0) ''notes.txt'')
   \<and> post_process (lab_env 0) (JString ''notes.txt'') (Some plain) (world_of []) =
       processImage (lab_env 0) (JString ''notes.txt'') (Some plain) (snd (reply (Started 1) (world_of [])))
   \<and> effects_of (post_process (lab_env 0) (JString ''notes.txt'') (Some plain)) (world_of []) =
       [Reply (Started 1), Emit (Start ''notes.txt''), Emit (Step ''notes.txt'' ''Optimizing & Tagging...''),
        SharpRead (Joined [''app'', ''input'', ''notes.txt'']), Emit (Error ''notes.txt'' ''Input file is missing'')]"
proof -
  have a: "''notes.txt'' \<noteq> ''all''" by simp
  have c: "\<not> is_image ''notes.txt''" by code_simp
  have d: "\<not> existsSync (files (world_of [])) (inputPath (lab_env 0) ''notes.txt'')" by code_simp
  have e: "effects_of (post_process (lab_env 0) (JString ''notes.txt'') (Some plain)) (world_of []) =
       [Reply (Started 1), Emit (Start ''notes.txt''), Emit (Step ''notes.txt'' ''Optimizing & Tagging...''),
        SharpRead (Joined [''app'', ''input'', ''notes.txt'']), Emit (Error ''notes.txt'' ''Input file is missing'')]"
    by code_simp
  from single_file_trigger [OF a, of "lab_env 0" "Some plain" "world_of []"] a c d e
  show ?thesis by blast
qed

section \<open>The batch\<close>















text \<open>The filter at work: two images are processed in turn, the text file is left out.
  And a batch cut short at its first file.\<close>

lemma batch_example:
  "events_of (post_process (lab_env 0) (JString ''all'') (Some plain))
      (world_of [(Joined [''app'', ''input'', ''a.png''], ''one''),
                 (Joined [''app'', ''input'', ''notes.txt''], ''text''),
                 (Joined [''app'', ''input'', ''b.JPG''], ''two'')]) =
     [Start ''a.png'', Step ''a.png'' ''Optimizing & Tagging...'', Complete ''a.png'' ''/output/a.jpg'',
      Start ''b.JPG'', Step ''b.JPG'' ''Optimizing & Tagging...'', Complete ''b.JPG'' ''/output/b.jpg'']"
  by code_simp

lemma batch_cut_short_example:
  "post_process unrunnable_env (JString ''all'') (Some upscaling)
      (world_of ((Joined [''app'', ''input'', ''b.png''], ''pixels'') # installed)) =
     (Inl (Uncaught (JsError ''spawn EACCES'')),
      (world_of ((Joined [''app'', ''input'', ''b.png''], ''pixels'') # installed))
        \<lparr>trace := [Reply (Started 2), Emit (Start ''b.png''), Emit (Step ''b.png'' ''Upscaling...''),
                  Spawn ''/opt/upscayl/bin/upscayl-bin''
                    (upscayl_args unrunnable_env ''b.png'' upscaling (world_of installed))]\<rparr>)"
  by code_simp

section \<open>Two files with one stem\<close>



text \<open>The stem is that of the last component of the name.\<close>

lemma stems_with_directories:
  "parse_name ''sub/x.png'' = ''x''"
  "parse_name ''../input/x.png'' = parse_name ''x.webp''"
  "finalOutputPath (lab_env 0) ''../input/.png'' = Joined [''app'', ''output'', ''.png.jpg'']"
  "finalOutputPath (lab_env 0) ''../input/.webp'' = Joined [''app'', ''output'', ''.webp.jpg'']"
  by code_simp+

end
